theory Spec2Isabelle
  imports Main "HOL-Library.Multiset"
begin

section \<open>TimeScope: the background time tracker\<close>

text \<open>
  A shallow embedding of \<^verbatim>\<open>src/background.ts\<close> (class \<^verbatim>\<open>TimeTracker\<close>) and of its
  earlier draft, which has no debug log and a threshold of 2000 ms instead of 1000 ms.

  Conventions of the model:
  \<^item> JavaScript numbers that hold tab ids, timestamps and durations are \<open>int\<close>
    (\<^verbatim>\<open>Date.now()\<close> is an integer number of milliseconds; the wall clock may go back,
    so a difference of two readings may be negative).
  \<^item> The store holds, under each day key, what \<^verbatim>\<open>interface DailyData\<close> declares: the
    number-valued own properties of the stored object, as an association list in
    JavaScript's property order (array-index keys first, in ascending order, then the other
    keys in the order of their creation). \<^verbatim>\<open>Object.entries\<close> is the list itself.
  \<^item> The object that \<^verbatim>\<open>chrome.storage.local.get\<close> returns is a plain object: a read of a
    property it does not own goes on to \<^verbatim>\<open>Object.prototype\<close>, and \<^verbatim>\<open>+\<close> concatenates when
    one operand is not a number. A property that the code sets to a string is no
    number-valued property, so it is not in the list; a later read of it is modelled as a
    read through the prototype, which gives another value than the stored string but, like
    it, no number.
  \<^item> Everything the browser decides is an input, collected in the record \<open>env\<close>:
    the clock, the local date, the \<^verbatim>\<open>URL\<close> constructor, the tab table, and whether
    a storage call or \<^verbatim>\<open>sendMessage\<close> fails.
  \<^item> A rejected promise or a thrown exception is \<open>Inl err\<close>; a \<^verbatim>\<open>try\<close> block is a
    function into a sum and its \<^verbatim>\<open>catch\<close> is the case on \<open>Inl\<close>.
  \<^item> In the handlers an \<^verbatim>\<open>async\<close> function is run to its end before its caller goes
    on: one \<open>env\<close> serves the whole run, and no other handler runs at an \<^verbatim>\<open>await\<close>. The
    state at the one \<^verbatim>\<open>await\<close> of \<^verbatim>\<open>handleTabChange\<close> is the argument of its second half,
    and the part of \<^verbatim>\<open>addTimeToStorage\<close> after its read of the store is a function of its
    own (\<open>addTimeToStorage_resume\<close>), so that a run in which two commits overlap can be
    written down.
  \<^item> The array \<^verbatim>\<open>debugLogs\<close> lives in a store of arrays (\<open>heap\<close>), since
    \<^verbatim>\<open>unshift\<close> writes in place while \<^verbatim>\<open>slice\<close> and the spread copy allocate.
\<close>

subsection \<open>Data\<close>

datatype js_error = Error string

datatype jsval =
    JUndefined
  | JNull
  | JBool bool
  | JNum int
  | JStr string
  | JObj "(string \<times> jsval) list"
  | JFunction string

datatype LogType = tab_change | focus_change | session_record | error | info

record DebugLogEntry =
  timestamp :: int
  message :: string
  logType :: LogType
  data :: jsval

record DomainData =
  dd_domain :: string
  dd_timeSpent :: int

type_synonym DailyData = "(string \<times> int) list"

type_synonym StorageData = "string \<rightharpoonup> DailyData"

text \<open>The object held by \<^verbatim>\<open>currentTab\<close>.\<close>

record TabSession =
  tabId :: int
  domain :: string
  startTime :: int

text \<open>What the model needs of \<^verbatim>\<open>chrome.tabs.Tab\<close> and of a parsed \<^verbatim>\<open>URL\<close>.\<close>

record Tab =
  tab_id :: int
  url :: "string option"
  active :: bool

record URL =
  protocol :: string
  hostname :: string

record ChangeInfo =
  status :: "string option"

record ActiveInfo =
  ai_tabId :: int
  ai_windowId :: int

datatype console_line = ConsoleLog string | ConsoleError string

record env =
  now :: int
  getFullYear :: int
  getMonth :: nat
  getDate :: nat
  newURL :: "string \<Rightarrow> URL option"
  tabs_get :: "int \<Rightarrow> js_error + Tab"
  tabs_query_current :: "js_error + Tab list"
  tabs_query_window :: "int \<Rightarrow> Tab list"
  storage_get_error :: "js_error option"
  storage_set_error :: "js_error option"
  sendMessage_error :: "js_error option"

record world =
  currentTab :: "TabSession option"
  isWindowFocused :: bool
  debugLogs :: nat
  popupConnected :: bool
  heap :: "nat \<Rightarrow> DebugLogEntry list"
  nextAddr :: nat
  storage :: StorageData
  console :: "console_line list"
  sent :: "DebugLogEntry list"

definition MAX_DEBUG_LOGS :: nat where
  "MAX_DEBUG_LOGS = 100"

definition WINDOW_ID_NONE :: int where
  "WINDOW_ID_NONE = - 1"

subsection \<open>JavaScript helpers\<close>

text \<open>Truthiness of an optional string: \<^verbatim>\<open>undefined\<close>, \<^verbatim>\<open>null\<close> and \<^verbatim>\<open>''\<close> are falsy.\<close>

definition truthy :: "string option \<Rightarrow> bool" where
  "truthy s = (case s of None \<Rightarrow> False | Some t \<Rightarrow> t \<noteq> [])"

text \<open>\<^verbatim>\<open>this.currentTab?.domain || 'none'\<close>\<close>

definition domain_or_none :: "TabSession option \<Rightarrow> jsval" where
  "domain_or_none c =
     (case c of None \<Rightarrow> JStr ''none''
      | Some s \<Rightarrow> if domain s = [] then JStr ''none'' else JStr (domain s))"

definition opt_str :: "string option \<Rightarrow> jsval" where
  "opt_str s = (case s of None \<Rightarrow> JUndefined | Some t \<Rightarrow> JStr t)"

text \<open>\<^verbatim>\<open>error instanceof Error ? error.message : String(error)\<close>\<close>

definition error_message :: "js_error \<Rightarrow> jsval" where
  "error_message err = (case err of Error m \<Rightarrow> JStr m)"

text \<open>\<^verbatim>\<open>result[today] || {}\<close>\<close>

definition or_empty :: "(string \<times> 'v) list option \<Rightarrow> (string \<times> 'v) list" where
  "or_empty r = (case r of None \<Rightarrow> [] | Some dd \<Rightarrow> dd)"

text \<open>
  The properties of \<^verbatim>\<open>Object.prototype\<close> other than the accessor \<^verbatim>\<open>__proto__\<close>: native
  functions, each with the name that its conversion to a string shows.
\<close>

definition Object_prototype :: "(string \<times> jsval) list" where
  "Object_prototype =
     [(''constructor'', JFunction ''Object''),
      (''__defineGetter__'', JFunction ''__defineGetter__''),
      (''__defineSetter__'', JFunction ''__defineSetter__''),
      (''hasOwnProperty'', JFunction ''hasOwnProperty''),
      (''__lookupGetter__'', JFunction ''__lookupGetter__''),
      (''__lookupSetter__'', JFunction ''__lookupSetter__''),
      (''isPrototypeOf'', JFunction ''isPrototypeOf''),
      (''propertyIsEnumerable'', JFunction ''propertyIsEnumerable''),
      (''toString'', JFunction ''toString''),
      (''valueOf'', JFunction ''valueOf''),
      (''toLocaleString'', JFunction ''toLocaleString'')]"

text \<open>
  The read \<^verbatim>\<open>dailyData[domain]\<close>: the object's own number if it has one; otherwise what
  \<^verbatim>\<open>Object.prototype\<close> gives, where the getter of \<^verbatim>\<open>__proto__\<close> returns the prototype
  object itself (written \<open>JObj []\<close>); otherwise \<^verbatim>\<open>undefined\<close>.
\<close>

definition obj_get :: "DailyData \<Rightarrow> string \<Rightarrow> jsval" where
  "obj_get ps k =
     (case map_of ps k of
        Some n \<Rightarrow> JNum n
      | None \<Rightarrow>
          if k = ''__proto__'' then JObj []
          else (case map_of Object_prototype k of Some f \<Rightarrow> f | None \<Rightarrow> JUndefined))"

text \<open>\<^verbatim>\<open>String(n)\<close> for an integer, and \<^verbatim>\<open>padStart\<close>.\<close>

definition digit_char :: "nat \<Rightarrow> char" where
  "digit_char d = ''0123456789'' ! (d mod 10)"

fun string_of_nat :: "nat \<Rightarrow> string" where
  "string_of_nat n =
     (if n < 10 then [digit_char n] else string_of_nat (n div 10) @ [digit_char (n mod 10)])"

declare string_of_nat.simps [simp del]

definition String_num :: "int \<Rightarrow> string" where
  "String_num i = (if i < 0 then CHR ''-'' # string_of_nat (nat (- i)) else string_of_nat (nat i))"

definition padStart :: "nat \<Rightarrow> string \<Rightarrow> string \<Rightarrow> string" where
  "padStart targetLength padString s =
     (if targetLength \<le> length s \<or> padString = [] then s
      else take (targetLength - length s)
             (concat (replicate (targetLength - length s) padString)) @ s)"

text \<open>
  \<^verbatim>\<open>(x || 0) + timeSpent\<close>. A falsy \<open>x\<close> gives way to 0. A number is added to; \<^verbatim>\<open>true\<close>
  counts as 1; a string, a function or an object is converted to a string and
  \<^verbatim>\<open>String(timeSpent)\<close> is appended to it.
\<close>

definition or_zero_plus :: "jsval \<Rightarrow> int \<Rightarrow> jsval" where
  "or_zero_plus x timeSpent =
     (case x of
        JUndefined \<Rightarrow> JNum timeSpent
      | JNull \<Rightarrow> JNum timeSpent
      | JBool b \<Rightarrow> JNum ((if b then 1 else 0) + timeSpent)
      | JNum n \<Rightarrow> JNum (n + timeSpent)
      | JStr s \<Rightarrow> if s = [] then JNum timeSpent else JStr (s @ String_num timeSpent)
      | JObj ps \<Rightarrow> JStr (''[object Object]'' @ String_num timeSpent)
      | JFunction name \<Rightarrow>
          JStr (''function '' @ name @ ''() { [native code] }'' @ String_num timeSpent))"

text \<open>
  Which keys are array indices (the canonical decimal form of an integer from 0 to
  4294967294), and the index.
\<close>

definition is_digit :: "char \<Rightarrow> bool" where
  "is_digit c = (c \<in> set ''0123456789'')"

definition digit_val :: "char \<Rightarrow> int" where
  "digit_val c = int (length (takeWhile (\<lambda>d. d \<noteq> c) ''0123456789''))"

definition array_index :: "string \<Rightarrow> int option" where
  "array_index k =
     (case k of
        [] \<Rightarrow> None
      | c # cs \<Rightarrow>
          if list_all is_digit k \<and> (if c = CHR ''0'' then cs = [] else True)
             \<and> foldl (\<lambda>n d. 10 * n + digit_val d) 0 k \<le> 4294967294
          then Some (foldl (\<lambda>n d. 10 * n + digit_val d) 0 k)
          else None)"

text \<open>
  A number becomes an own property: an existing one keeps its place; a new array index
  goes after the smaller indices; any other new key goes to the end.
\<close>

fun insert_index :: "int \<Rightarrow> string \<Rightarrow> int \<Rightarrow> DailyData \<Rightarrow> DailyData" where
  "insert_index i k v [] = [(k, v)]"
| "insert_index i k v (p # ps) =
     (case array_index (fst p) of
        Some j \<Rightarrow> if j < i then p # insert_index i k v ps else (k, v) # p # ps
      | None \<Rightarrow> (k, v) # p # ps)"

definition own_set :: "string \<Rightarrow> int \<Rightarrow> DailyData \<Rightarrow> DailyData" where
  "own_set k v ps =
     (case map_of ps k of
        Some n \<Rightarrow> map (\<lambda>p. if fst p = k then (k, v) else p) ps
      | None \<Rightarrow>
          (case array_index k of
             Some i \<Rightarrow> insert_index i k v ps
           | None \<Rightarrow> ps @ [(k, v)]))"

text \<open>
  The assignment \<^verbatim>\<open>dailyData[domain] = v\<close>. For \<^verbatim>\<open>__proto__\<close>, unless the object owns such
  a property, the assignment calls the setter of \<^verbatim>\<open>Object.prototype\<close>, which ignores a
  number or a string. Otherwise the object gets the own property: a number is kept in the
  list, anything else makes the property one that holds no number.
\<close>

definition obj_set :: "string \<Rightarrow> jsval \<Rightarrow> DailyData \<Rightarrow> DailyData" where
  "obj_set k v ps =
     (if k = ''__proto__'' \<and> map_of ps k = None then ps
      else (case v of
              JNum n \<Rightarrow> own_set k n ps
            | JUndefined \<Rightarrow> filter (\<lambda>p. fst p \<noteq> k) ps
            | JNull \<Rightarrow> filter (\<lambda>p. fst p \<noteq> k) ps
            | JBool b \<Rightarrow> filter (\<lambda>p. fst p \<noteq> k) ps
            | JStr t \<Rightarrow> filter (\<lambda>p. fst p \<noteq> k) ps
            | JObj qs \<Rightarrow> filter (\<lambda>p. fst p \<noteq> k) ps
            | JFunction name \<Rightarrow> filter (\<lambda>p. fst p \<noteq> k) ps))"

text \<open>
  \<^verbatim>\<open>Array.prototype.sort(compare)\<close>: the sort is stable, and with a consistent comparator
  the stable sorted arrangement is unique; it is computed here by insertion.
\<close>

fun insert_by :: "('a \<Rightarrow> 'a \<Rightarrow> int) \<Rightarrow> 'a \<Rightarrow> 'a list \<Rightarrow> 'a list" where
  "insert_by compare x [] = [x]"
| "insert_by compare x (y # ys) =
     (if compare x y \<le> 0 then x # y # ys else y # insert_by compare x ys)"

definition array_sort :: "('a \<Rightarrow> 'a \<Rightarrow> int) \<Rightarrow> 'a list \<Rightarrow> 'a list" where
  "array_sort compare xs = foldr (insert_by compare) xs []"

subsection \<open>Console and storage\<close>

definition console_log :: "string \<Rightarrow> world \<Rightarrow> world" where
  "console_log line w = w\<lparr>console := ConsoleLog line # console w\<rparr>"

definition console_error :: "string \<Rightarrow> world \<Rightarrow> world" where
  "console_error line w = w\<lparr>console := ConsoleError line # console w\<rparr>"

text \<open>\<^verbatim>\<open>chrome.storage.local.get([key])\<close> followed by \<^verbatim>\<open>result[key]\<close>.\<close>

definition storage_get :: "env \<Rightarrow> world \<Rightarrow> string \<Rightarrow> js_error + DailyData option" where
  "storage_get e w key =
     (case storage_get_error e of Some err \<Rightarrow> Inl err | None \<Rightarrow> Inr (storage w key))"

text \<open>\<^verbatim>\<open>chrome.storage.local.set({ [key]: value })\<close>\<close>

definition storage_set :: "env \<Rightarrow> string \<Rightarrow> DailyData \<Rightarrow> world \<Rightarrow> js_error + world" where
  "storage_set e key v w =
     (case storage_set_error e of Some err \<Rightarrow> Inl err
      | None \<Rightarrow> Inr (w\<lparr>storage := (storage w)(key \<mapsto> v)\<rparr>))"

subsection \<open>The debug log\<close>

text \<open>
  \<^verbatim>\<open>broadcastLogEntry\<close>: a synchronous throw of \<^verbatim>\<open>sendMessage\<close> and a rejection of its
  promise both end in \<^verbatim>\<open>popupConnected = false\<close>.
\<close>

definition broadcastLogEntry :: "env \<Rightarrow> DebugLogEntry \<Rightarrow> world \<Rightarrow> world" where
  "broadcastLogEntry e logEntry w =
     (if popupConnected w then
        (case sendMessage_error e of
           None \<Rightarrow> w\<lparr>sent := logEntry # sent w\<rparr>
         | Some err \<Rightarrow> w\<lparr>popupConnected := False\<rparr>)
      else w)"

text \<open>
  \<^verbatim>\<open>addDebugLog\<close>: \<^verbatim>\<open>unshift\<close> writes into the array that \<^verbatim>\<open>debugLogs\<close> points to;
  \<^verbatim>\<open>slice(0, MAX_DEBUG_LOGS)\<close> allocates a new array, which \<^verbatim>\<open>debugLogs\<close> then points to.
\<close>

definition addDebugLog :: "env \<Rightarrow> LogType \<Rightarrow> string \<Rightarrow> jsval \<Rightarrow> world \<Rightarrow> world" where
  "addDebugLog e t msg d w =
     (let logEntry = \<lparr>timestamp = now e, message = msg, logType = t, data = d\<rparr>;
          w1 = w\<lparr>heap := (heap w)(debugLogs w := logEntry # heap w (debugLogs w))\<rparr>;
          w2 = (if length (heap w1 (debugLogs w1)) > MAX_DEBUG_LOGS
                then w1\<lparr>debugLogs := nextAddr w1,
                        heap := (heap w1)(nextAddr w1 := take MAX_DEBUG_LOGS (heap w1 (debugLogs w1))),
                        nextAddr := Suc (nextAddr w1)\<rparr>
                else w1);
          w3 = console_log (''[TimeScope Debug] '' @ msg) w2
      in broadcastLogEntry e logEntry w3)"

text \<open>The array that \<^verbatim>\<open>this.debugLogs\<close> points to.\<close>

definition logs_of :: "world \<Rightarrow> DebugLogEntry list" where
  "logs_of w = heap w (debugLogs w)"

text \<open>\<^verbatim>\<open>getDebugLogs\<close> returns the address of the copy \<^verbatim>\<open>[...this.debugLogs]\<close>.\<close>

definition getDebugLogs :: "world \<Rightarrow> nat \<times> world" where
  "getDebugLogs w =
     (nextAddr w,
      w\<lparr>heap := (heap w)(nextAddr w := heap w (debugLogs w)), nextAddr := Suc (nextAddr w)\<rparr>)"

text \<open>A sequence of \<^verbatim>\<open>addDebugLog\<close> calls, and the entry that one call builds.\<close>

type_synonym log_call = "env \<times> LogType \<times> string \<times> jsval"

fun entry_of :: "log_call \<Rightarrow> DebugLogEntry" where
  "entry_of (e, t, msg, d) = \<lparr>timestamp = now e, message = msg, logType = t, data = d\<rparr>"

fun addDebugLog_calls :: "log_call list \<Rightarrow> world \<Rightarrow> world" where
  "addDebugLog_calls [] w = w"
| "addDebugLog_calls ((e, t, msg, d) # cs) w = addDebugLog_calls cs (addDebugLog e t msg d w)"

definition setPopupConnected :: "env \<Rightarrow> bool \<Rightarrow> world \<Rightarrow> world" where
  "setPopupConnected e connected w =
     (let w1 = w\<lparr>popupConnected := connected\<rparr> in
      if connected
      then addDebugLog e info ''Debug popup connected'' (JObj [(''timestamp'', JNum (now e))]) w1
      else addDebugLog e info ''Debug popup disconnected'' (JObj [(''timestamp'', JNum (now e))]) w1)"

subsection \<open>Domains, day keys and the stored totals\<close>

definition extractDomain :: "env \<Rightarrow> string \<Rightarrow> string option" where
  "extractDomain e u =
     (case newURL e u of
        None \<Rightarrow> None
      | Some urlObj \<Rightarrow>
          if protocol urlObj = ''chrome:'' \<or> protocol urlObj = ''chrome-extension:''
          then None
          else Some (hostname urlObj))"

definition getTodayKey :: "env \<Rightarrow> string" where
  "getTodayKey e =
     String_num (getFullYear e) @ ''-'' @
     padStart 2 ''0'' (String_num (int (getMonth e) + 1)) @ ''-'' @
     padStart 2 ''0'' (String_num (int (getDate e)))"

text \<open>
  \<^verbatim>\<open>addTimeToStorage\<close>. Its \<^verbatim>\<open>try\<close> block has two \<^verbatim>\<open>await\<close>s. \<open>addTimeToStorage_resume\<close> is
  the part that runs once the read has delivered \<open>result\<close> (that is \<^verbatim>\<open>result[today]\<close>), in the
  state \<open>w\<close> of that later moment; \<open>addTimeToStorage_try\<close> is the block when nothing else runs
  in between.
\<close>

definition addTimeToStorage_resume ::
    "env \<Rightarrow> string \<Rightarrow> string \<Rightarrow> int \<Rightarrow> DailyData option \<Rightarrow> world \<Rightarrow> js_error + world" where
  "addTimeToStorage_resume e today dname timeSpent result w =
     (let dailyData = or_empty result;
          dailyData' = obj_set dname (or_zero_plus (obj_get dailyData dname) timeSpent) dailyData
      in storage_set e today dailyData' w)"

definition addTimeToStorage_try :: "env \<Rightarrow> string \<Rightarrow> string \<Rightarrow> int \<Rightarrow> world \<Rightarrow> js_error + world" where
  "addTimeToStorage_try e today dname timeSpent w =
     (case storage_get e w today of
        Inl err \<Rightarrow> Inl err
      | Inr result \<Rightarrow> addTimeToStorage_resume e today dname timeSpent result w)"

definition addTimeToStorage :: "env \<Rightarrow> string \<Rightarrow> int \<Rightarrow> world \<Rightarrow> (js_error + unit) \<times> world" where
  "addTimeToStorage e dname timeSpent w =
     (let today = getTodayKey e in
      case addTimeToStorage_try e today dname timeSpent w of
        Inr w' \<Rightarrow> (Inr (), w')
      | Inl err \<Rightarrow> (Inr (), console_error ''Error saving to storage:'' w))"

definition getTodayData_try :: "env \<Rightarrow> string \<Rightarrow> world \<Rightarrow> js_error + DomainData list" where
  "getTodayData_try e today w =
     (case storage_get e w today of
        Inl err \<Rightarrow> Inl err
      | Inr result \<Rightarrow>
          (let dailyData = or_empty result
           in Inr (array_sort (\<lambda>a b. dd_timeSpent b - dd_timeSpent a)
                     (map (\<lambda>(dname, timeSpent). \<lparr>dd_domain = dname, dd_timeSpent = timeSpent\<rparr>)
                        dailyData))))"

definition getTodayData :: "env \<Rightarrow> world \<Rightarrow> (js_error + DomainData list) \<times> world" where
  "getTodayData e w =
     (let today = getTodayKey e in
      case getTodayData_try e today w of
        Inr r \<Rightarrow> (Inr r, w)
      | Inl err \<Rightarrow> (Inr [], console_error ''Error loading today data:'' w))"

subsection \<open>Sessions\<close>

definition recordCurrentSession :: "env \<Rightarrow> world \<Rightarrow> world" where
  "recordCurrentSession e w =
     (case currentTab w of
        None \<Rightarrow>
          addDebugLog e session_record ''No current tab to record''
            (JObj [(''windowFocused'', JBool (isWindowFocused w))]) w
      | Some c \<Rightarrow>
          (let timeSpent = now e - startTime c;
               w1 = addDebugLog e session_record ''Recording session''
                      (JObj [(''domain'', JStr (domain c)),
                             (''timeSpent'', JNum timeSpent),
                             (''startTime'', JNum (startTime c)),
                             (''windowFocused'', JBool (isWindowFocused w)),
                             (''willRecord'', JBool (timeSpent \<ge> 1000))]) w
           in if timeSpent \<ge> 1000
              then snd (addTimeToStorage e (domain c) timeSpent w1)
              else w1))"

text \<open>
  The \<^verbatim>\<open>try\<close> block of \<^verbatim>\<open>handleTabChange\<close>, entered in the state \<open>w\<close> that
  \<^verbatim>\<open>recordCurrentSession\<close> left. Only \<^verbatim>\<open>chrome.tabs.get\<close> can throw in it, before any
  assignment. \<^verbatim>\<open>if (domain)\<close> also fails for the empty hostname.
\<close>

definition handleTabChange_try :: "env \<Rightarrow> int \<Rightarrow> world \<Rightarrow> js_error + world" where
  "handleTabChange_try e tid w =
     (case tabs_get e tid of
        Inl err \<Rightarrow> Inl err
      | Inr tab \<Rightarrow>
          Inr (if truthy (url tab) then
                 (let dname = extractDomain e (the (url tab)) in
                  if truthy dname then
                    addDebugLog e tab_change ''Started tracking new tab''
                      (JObj [(''tabId'', JNum tid),
                             (''domain'', opt_str dname),
                             (''url'', opt_str (url tab)),
                             (''windowFocused'', JBool (isWindowFocused w))])
                      (w\<lparr>currentTab := Some \<lparr>tabId = tid, domain = the dname, startTime = now e\<rparr>\<rparr>)
                  else
                    addDebugLog e tab_change ''Tab change - invalid domain, stopped tracking''
                      (JObj [(''tabId'', JNum tid), (''url'', opt_str (url tab))])
                      (w\<lparr>currentTab := None\<rparr>))
               else w))"

definition handleTabChange :: "env \<Rightarrow> int \<Rightarrow> world \<Rightarrow> (js_error + unit) \<times> world" where
  "handleTabChange e tid w =
     (if \<not> isWindowFocused w then
        (Inr (), addDebugLog e tab_change ''Tab change ignored - window not focused''
                   (JObj [(''tabId'', JNum tid), (''windowFocused'', JBool (isWindowFocused w))]) w)
      else
        (let w1 = recordCurrentSession e w in
         case handleTabChange_try e tid w1 of
           Inr w2 \<Rightarrow> (Inr (), w2)
         | Inl err \<Rightarrow>
             (Inr (),
              (console_error ''Error getting tab info:''
                 (addDebugLog e error ''Error getting tab info during tab change''
                    (JObj [(''tabId'', JNum tid), (''error'', error_message err)]) w1))
              \<lparr>currentTab := None\<rparr>)))"

definition initializeCurrentTab_try :: "env \<Rightarrow> world \<Rightarrow> js_error + world" where
  "initializeCurrentTab_try e w =
     (case tabs_query_current e of
        Inl err \<Rightarrow> Inl err
      | Inr [] \<Rightarrow>
          Inr (addDebugLog e info ''No initial tab found'' (JObj [(''tab'', JUndefined)]) w)
      | Inr (tab # rest) \<Rightarrow>
          Inr (if tab_id tab \<noteq> 0 \<and> truthy (url tab) then
                 (let dname = extractDomain e (the (url tab)) in
                  if truthy dname then
                    addDebugLog e info ''Initial tab set''
                      (JObj [(''tabId'', JNum (tab_id tab)),
                             (''domain'', opt_str dname),
                             (''url'', opt_str (url tab)),
                             (''windowFocused'', JBool (isWindowFocused w))])
                      (w\<lparr>currentTab :=
                           Some \<lparr>tabId = tab_id tab, domain = the dname, startTime = now e\<rparr>\<rparr>)
                  else
                    addDebugLog e info ''Initial tab skipped (invalid domain)''
                      (JObj [(''tabId'', JNum (tab_id tab)), (''url'', opt_str (url tab))]) w)
               else
                 addDebugLog e info ''No initial tab found''
                   (JObj [(''tab'', JObj [(''id'', JNum (tab_id tab)), (''url'', opt_str (url tab))])])
                   w))"

definition initializeCurrentTab :: "env \<Rightarrow> world \<Rightarrow> (js_error + unit) \<times> world" where
  "initializeCurrentTab e w =
     (case initializeCurrentTab_try e w of
        Inr w' \<Rightarrow> (Inr (), w')
      | Inl err \<Rightarrow>
          (Inr (),
           console_error ''Error initializing current tab:''
             (addDebugLog e error ''Error initializing current tab''
                (JObj [(''error'', error_message err)]) w)))"

subsection \<open>Event listeners\<close>

definition onActivated :: "env \<Rightarrow> ActiveInfo \<Rightarrow> world \<Rightarrow> world" where
  "onActivated e activeInfo w =
     snd (handleTabChange e (ai_tabId activeInfo)
            (addDebugLog e tab_change ''Tab activated''
               (JObj [(''tabId'', JNum (ai_tabId activeInfo)),
                      (''windowId'', JNum (ai_windowId activeInfo)),
                      (''windowFocused'', JBool (isWindowFocused w)),
                      (''currentTab'', domain_or_none (currentTab w))]) w))"

definition onUpdated :: "env \<Rightarrow> int \<Rightarrow> ChangeInfo \<Rightarrow> Tab \<Rightarrow> world \<Rightarrow> world" where
  "onUpdated e tid changeInfo tab w =
     (if status changeInfo = Some ''complete'' \<and> active tab \<and> isWindowFocused w then
        snd (handleTabChange e tid
               (addDebugLog e tab_change ''Tab URL updated''
                  (JObj [(''tabId'', JNum tid),
                         (''url'', opt_str (url tab)),
                         (''windowFocused'', JBool (isWindowFocused w)),
                         (''changeInfo'', JObj [(''status'', opt_str (status changeInfo))]),
                         (''currentTab'', domain_or_none (currentTab w))]) w))
      else w)"

definition onFocusChanged :: "env \<Rightarrow> int \<Rightarrow> world \<Rightarrow> world" where
  "onFocusChanged e windowId w =
     (if windowId = WINDOW_ID_NONE then
        (let w1 = addDebugLog e focus_change ''Browser lost focus''
                    (JObj [(''previousWindowFocused'', JBool (isWindowFocused w)),
                           (''currentTab'', domain_or_none (currentTab w)),
                           (''sessionTime'',
                              JNum (case currentTab w of None \<Rightarrow> 0
                                    | Some c \<Rightarrow> now e - startTime c))]) w;
             w2 = w1\<lparr>isWindowFocused := False\<rparr>;
             w3 = recordCurrentSession e w2
         in w3\<lparr>currentTab := None\<rparr>)
      else
        (let previousFocusState = isWindowFocused w;
             w1 = w\<lparr>isWindowFocused := True\<rparr>;
             w2 = addDebugLog e focus_change ''Browser gained focus''
                    (JObj [(''windowId'', JNum windowId),
                           (''previousWindowFocused'', JBool previousFocusState),
                           (''currentTab'', domain_or_none (currentTab w1))]) w1
         in case tabs_query_window e windowId of
              [] \<Rightarrow>
                addDebugLog e focus_change ''No active tab found after focus gain''
                  (JObj [(''windowId'', JNum windowId)]) w2
            | tab # rest \<Rightarrow>
                snd (handleTabChange e (tab_id tab)
                       (addDebugLog e focus_change ''Active tab found after focus gain''
                          (JObj [(''tabId'', JNum (tab_id tab)),
                                 (''url'', opt_str (url tab)),
                                 (''domain'',
                                    (case extractDomain e (case url tab of None \<Rightarrow> [] | Some u \<Rightarrow> u) of
                                       None \<Rightarrow> JNull | Some h \<Rightarrow> JStr h))]) w2))))"

text \<open>The state a new \<^verbatim>\<open>TimeTracker\<close> starts from, over the stored data \<open>st\<close>.\<close>

definition new_world :: "StorageData \<Rightarrow> world" where
  "new_world st =
     \<lparr>currentTab = None, isWindowFocused = True, debugLogs = 0, popupConnected = False,
      heap = (\<lambda>a. []), nextAddr = 1, storage = st, console = [], sent = []\<rparr>"

text \<open>
  The constructor: \<^verbatim>\<open>initializeCurrentTab()\<close> stops at its \<^verbatim>\<open>await\<close>, the constructor
  logs, and the rest of \<^verbatim>\<open>initializeCurrentTab\<close> runs afterwards.
\<close>

definition constructor :: "env \<Rightarrow> StorageData \<Rightarrow> world" where
  "constructor e st =
     snd (initializeCurrentTab e
            (addDebugLog e info ''TimeTracker initialized''
               (JObj [(''windowFocused'', JBool True), (''timestamp'', JNum (now e))])
               (new_world st)))"

subsection \<open>The earlier draft\<close>

text \<open>
  The earlier draft of the class has the fields \<^verbatim>\<open>currentTab\<close> and \<^verbatim>\<open>isWindowFocused\<close>
  only, no debug log, and a threshold of 2000 ms. Its \<^verbatim>\<open>extractDomain\<close>,
  \<^verbatim>\<open>addTimeToStorage\<close>, \<^verbatim>\<open>getTodayKey\<close> and \<^verbatim>\<open>getTodayData\<close> are those above, word for
  word. Its other functions are modelled over the same state and leave the debug log alone.
\<close>

definition recordCurrentSession_draft :: "env \<Rightarrow> world \<Rightarrow> world" where
  "recordCurrentSession_draft e w =
     (case currentTab w of
        None \<Rightarrow> w
      | Some c \<Rightarrow>
          (let timeSpent = now e - startTime c
           in if timeSpent \<ge> 2000
              then snd (addTimeToStorage e (domain c) timeSpent w)
              else w))"

definition handleTabChange_draft_try :: "env \<Rightarrow> int \<Rightarrow> world \<Rightarrow> js_error + world" where
  "handleTabChange_draft_try e tid w =
     (case tabs_get e tid of
        Inl err \<Rightarrow> Inl err
      | Inr tab \<Rightarrow>
          Inr (if truthy (url tab) then
                 (let dname = extractDomain e (the (url tab)) in
                  if truthy dname
                  then w\<lparr>currentTab := Some \<lparr>tabId = tid, domain = the dname, startTime = now e\<rparr>\<rparr>
                  else w\<lparr>currentTab := None\<rparr>)
               else w))"

definition handleTabChange_draft :: "env \<Rightarrow> int \<Rightarrow> world \<Rightarrow> (js_error + unit) \<times> world" where
  "handleTabChange_draft e tid w =
     (if \<not> isWindowFocused w then (Inr (), w)
      else
        (let w1 = recordCurrentSession_draft e w in
         case handleTabChange_draft_try e tid w1 of
           Inr w2 \<Rightarrow> (Inr (), w2)
         | Inl err \<Rightarrow> (Inr (), (console_error ''Error getting tab info:'' w1)\<lparr>currentTab := None\<rparr>)))"

definition onFocusChanged_draft :: "env \<Rightarrow> int \<Rightarrow> world \<Rightarrow> world" where
  "onFocusChanged_draft e windowId w =
     (if windowId = WINDOW_ID_NONE then
        (let w1 = w\<lparr>isWindowFocused := False\<rparr>;
             w2 = recordCurrentSession_draft e w1
         in w2\<lparr>currentTab := None\<rparr>)
      else
        (let w1 = w\<lparr>isWindowFocused := True\<rparr>
         in case tabs_query_window e windowId of
              [] \<Rightarrow> w1
            | tab # rest \<Rightarrow> snd (handleTabChange_draft e (tab_id tab) w1)))"

subsection \<open>Sample inputs\<close>

text \<open>
  A small browser for the concrete instances below: four URLs as the \<^verbatim>\<open>URL\<close>
  constructor parses them, four tabs (tab 2 reports no URL), 7 March 2024, and a tracker
  that has been timing tab 1 since time 0.
\<close>

definition sample_newURL :: "string \<Rightarrow> URL option" where
  "sample_newURL u =
     (if u = ''https://www.example.com/a''
        then Some \<lparr>protocol = ''https:'', hostname = ''www.example.com''\<rparr>
      else if u = ''https://other.com/''
        then Some \<lparr>protocol = ''https:'', hostname = ''other.com''\<rparr>
      else if u = ''chrome://settings/''
        then Some \<lparr>protocol = ''chrome:'', hostname = ''settings''\<rparr>
      else if u = ''chrome-extension://abcdef/popup.html''
        then Some \<lparr>protocol = ''chrome-extension:'', hostname = ''abcdef''\<rparr>
      else None)"

definition sample_tabs_get :: "int \<Rightarrow> js_error + Tab" where
  "sample_tabs_get tid =
     (if tid = 1 then Inr \<lparr>tab_id = 1, url = Some ''https://www.example.com/a'', active = True\<rparr>
      else if tid = 2 then Inr \<lparr>tab_id = 2, url = None, active = True\<rparr>
      else if tid = 3 then Inr \<lparr>tab_id = 3, url = Some ''chrome://settings/'', active = True\<rparr>
      else if tid = 4 then Inr \<lparr>tab_id = 4, url = Some ''https://other.com/'', active = True\<rparr>
      else Inl (Error ''No tab with id''))"

definition sample_env :: env where
  "sample_env =
     \<lparr>now = 5000, getFullYear = 2024, getMonth = 2, getDate = 7,
      newURL = sample_newURL, tabs_get = sample_tabs_get,
      tabs_query_current = Inr [], tabs_query_window = (\<lambda>wid. []),
      storage_get_error = None, storage_set_error = None, sendMessage_error = None\<rparr>"

definition sample_world :: world where
  "sample_world =
     (new_world Map.empty)
       \<lparr>currentTab := Some \<lparr>tabId = 1, domain = ''www.example.com'', startTime = 0\<rparr>\<rparr>"

section \<open>Properties\<close>

subsection \<open>What each operation leaves alone\<close>

lemma broadcastLogEntry_frame [simp]:
  "currentTab (broadcastLogEntry e l w) = currentTab w"
  "isWindowFocused (broadcastLogEntry e l w) = isWindowFocused w"
  "storage (broadcastLogEntry e l w) = storage w"
  "heap (broadcastLogEntry e l w) = heap w"
  "debugLogs (broadcastLogEntry e l w) = debugLogs w"
  "nextAddr (broadcastLogEntry e l w) = nextAddr w"
  "console (broadcastLogEntry e l w) = console w"
  by (simp_all add: broadcastLogEntry_def split: option.splits)

lemma console_frame [simp]:
  "currentTab (console_error s w) = currentTab w"
  "isWindowFocused (console_error s w) = isWindowFocused w"
  "storage (console_error s w) = storage w"
  "heap (console_error s w) = heap w"
  "debugLogs (console_error s w) = debugLogs w"
  "nextAddr (console_error s w) = nextAddr w"
  "currentTab (console_log s w) = currentTab w"
  "isWindowFocused (console_log s w) = isWindowFocused w"
  "storage (console_log s w) = storage w"
  "heap (console_log s w) = heap w"
  "debugLogs (console_log s w) = debugLogs w"
  "nextAddr (console_log s w) = nextAddr w"
  by (simp_all add: console_error_def console_log_def)

lemma addDebugLog_frame [simp]:
  "currentTab (addDebugLog e t m d w) = currentTab w"
  "isWindowFocused (addDebugLog e t m d w) = isWindowFocused w"
  "storage (addDebugLog e t m d w) = storage w"
  by (simp_all add: addDebugLog_def Let_def)

lemma logs_of_addDebugLog:
  "logs_of (addDebugLog e t m d w) =
     take MAX_DEBUG_LOGS (\<lparr>timestamp = now e, message = m, logType = t, data = d\<rparr> # logs_of w)"
  by (simp add: addDebugLog_def logs_of_def Let_def)

lemma storage_set_frame:
  "storage_set e k v w = Inr w' \<Longrightarrow>
     currentTab w' = currentTab w \<and> isWindowFocused w' = isWindowFocused w"
  by (auto simp: storage_set_def split: option.splits)

lemma addTimeToStorage_frame [simp]:
  "currentTab (snd (addTimeToStorage e d t w)) = currentTab w"
  "isWindowFocused (snd (addTimeToStorage e d t w)) = isWindowFocused w"
  by (auto simp: addTimeToStorage_def addTimeToStorage_try_def addTimeToStorage_resume_def Let_def
        split: sum.splits dest: storage_set_frame)

lemma recordCurrentSession_frame [simp]:
  "currentTab (recordCurrentSession e w) = currentTab w"
  "isWindowFocused (recordCurrentSession e w) = isWindowFocused w"
  by (simp_all add: recordCurrentSession_def Let_def split: option.splits)

lemma recordCurrentSession_draft_frame [simp]:
  "currentTab (recordCurrentSession_draft e w) = currentTab w"
  "isWindowFocused (recordCurrentSession_draft e w) = isWindowFocused w"
  by (simp_all add: recordCurrentSession_draft_def Let_def split: option.splits)

lemma storage_handleTabChange_try:
  "handleTabChange_try e tid w = Inr w' \<Longrightarrow> storage w' = storage w"
  by (auto simp: handleTabChange_try_def Let_def split: sum.splits if_splits)

lemma storage_handleTabChange_draft_try:
  "handleTabChange_draft_try e tid w = Inr w' \<Longrightarrow> storage w' = storage w"
  by (auto simp: handleTabChange_draft_try_def Let_def split: sum.splits if_splits)

lemma storage_handleTabChange:
  "storage (snd (handleTabChange e tid w)) =
     (if isWindowFocused w then storage (recordCurrentSession e w) else storage w)"
  by (auto simp: handleTabChange_def Let_def split: sum.splits dest: storage_handleTabChange_try)

lemma storage_handleTabChange_draft:
  "storage (snd (handleTabChange_draft e tid w)) =
     (if isWindowFocused w then storage (recordCurrentSession_draft e w) else storage w)"
  by (auto simp: handleTabChange_draft_def Let_def split: sum.splits
        dest: storage_handleTabChange_draft_try)

subsection \<open>Domain extraction\<close>

lemma handleTabChange_untracked:
  assumes "tabs_get e tid = Inr tab" and "url tab = Some u" and "extractDomain e u = None"
  shows "currentTab (snd (handleTabChange e tid w)) = None
       \<or> currentTab (snd (handleTabChange e tid w)) = currentTab w"
  using assms
  by (simp add: handleTabChange_def handleTabChange_try_def truthy_def Let_def)

lemma handleTabChange_draft_untracked:
  assumes "tabs_get e tid = Inr tab" and "url tab = Some u" and "extractDomain e u = None"
  shows "currentTab (snd (handleTabChange_draft e tid w)) = None
       \<or> currentTab (snd (handleTabChange_draft e tid w)) = currentTab w"
  using assms
  by (simp add: handleTabChange_draft_def handleTabChange_draft_try_def truthy_def Let_def)

lemma initializeCurrentTab_untracked:
  assumes "tabs_query_current e = Inr (tab # rest)" and "url tab = Some u"
    and "extractDomain e u = None"
  shows "currentTab (snd (initializeCurrentTab e w)) = currentTab w"
  using assms
  by (simp add: initializeCurrentTab_def initializeCurrentTab_try_def truthy_def Let_def)

text \<open>
  Claim C3. For every string \<open>u\<close>, \<^verbatim>\<open>extractDomain\<close> returns nothing exactly when the
  \<^verbatim>\<open>URL\<close> constructor throws on \<open>u\<close> or the parsed protocol is \<^verbatim>\<open>chrome:\<close> or
  \<^verbatim>\<open>chrome-extension:\<close>; otherwise it returns the hostname of the parsed URL as it is.
  A tab whose URL gives no domain opens no interval: after \<^verbatim>\<open>handleTabChange\<close> (in
  either draft) \<^verbatim>\<open>currentTab\<close> is empty or what it was, and \<^verbatim>\<open>initializeCurrentTab\<close>
  leaves it as it was.
\<close>

theorem extractDomain_spec:
  "(extractDomain e u = None \<longleftrightarrow>
      newURL e u = None \<or>
      (\<exists>urlObj. newURL e u = Some urlObj \<and>
         (protocol urlObj = ''chrome:'' \<or> protocol urlObj = ''chrome-extension:'')))
   \<and> (\<forall>urlObj. newURL e u = Some urlObj \<and> protocol urlObj \<noteq> ''chrome:'' \<and>
         protocol urlObj \<noteq> ''chrome-extension:'' \<longrightarrow>
         extractDomain e u = Some (hostname urlObj))
   \<and> (\<forall>tab. tabs_get e tid = Inr tab \<and> url tab = Some u \<and> extractDomain e u = None \<longrightarrow>
         (currentTab (snd (handleTabChange e tid w)) = None
            \<or> currentTab (snd (handleTabChange e tid w)) = currentTab w)
         \<and> (currentTab (snd (handleTabChange_draft e tid w)) = None
            \<or> currentTab (snd (handleTabChange_draft e tid w)) = currentTab w))
   \<and> (\<forall>tab rest. tabs_query_current e = Inr (tab # rest) \<and> url tab = Some u \<and>
         extractDomain e u = None \<longrightarrow>
         currentTab (snd (initializeCurrentTab e w)) = currentTab w)"
proof (intro conjI)
  show "extractDomain e u = None \<longleftrightarrow>
      newURL e u = None \<or>
      (\<exists>urlObj. newURL e u = Some urlObj \<and>
         (protocol urlObj = ''chrome:'' \<or> protocol urlObj = ''chrome-extension:''))"
    by (cases "newURL e u") (simp_all add: extractDomain_def)
  show "\<forall>urlObj. newURL e u = Some urlObj \<and> protocol urlObj \<noteq> ''chrome:'' \<and>
         protocol urlObj \<noteq> ''chrome-extension:'' \<longrightarrow>
         extractDomain e u = Some (hostname urlObj)"
    by (simp add: extractDomain_def)
  show "\<forall>tab. tabs_get e tid = Inr tab \<and> url tab = Some u \<and> extractDomain e u = None \<longrightarrow>
         (currentTab (snd (handleTabChange e tid w)) = None
            \<or> currentTab (snd (handleTabChange e tid w)) = currentTab w)
         \<and> (currentTab (snd (handleTabChange_draft e tid w)) = None
            \<or> currentTab (snd (handleTabChange_draft e tid w)) = currentTab w)"
    using handleTabChange_untracked handleTabChange_draft_untracked by blast
  show "\<forall>tab rest. tabs_query_current e = Inr (tab # rest) \<and> url tab = Some u \<and>
         extractDomain e u = None \<longrightarrow>
         currentTab (snd (initializeCurrentTab e w)) = currentTab w"
    using initializeCurrentTab_untracked by blast
qed

theorem extractDomain_spec_witness:
  "newURL sample_env ''not a url'' = None
   \<and> extractDomain sample_env ''not a url'' = None
   \<and> extractDomain sample_env ''https://www.example.com/a'' = Some ''www.example.com''
   \<and> tabs_get sample_env 3 = Inr \<lparr>tab_id = 3, url = Some ''chrome://settings/'', active = True\<rparr>
   \<and> extractDomain sample_env ''chrome://settings/'' = None
   \<and> (currentTab (snd (handleTabChange sample_env 3 sample_world)) = None
        \<or> currentTab (snd (handleTabChange sample_env 3 sample_world)) = currentTab sample_world)"
  using extractDomain_spec [of sample_env "''not a url''" 3 sample_world]
    extractDomain_spec [of sample_env "''https://www.example.com/a''" 3 sample_world]
    extractDomain_spec [of sample_env "''chrome://settings/''" 3 sample_world]
  by (simp add: sample_env_def sample_newURL_def sample_tabs_get_def)

subsection \<open>The threshold\<close>

lemma short_session_not_stored:
  "currentTab w = Some c \<Longrightarrow> now e - startTime c < 1000 \<Longrightarrow>
     storage (recordCurrentSession e w) = storage w"
  by (simp add: recordCurrentSession_def Let_def)

lemma short_session_not_stored_draft:
  "currentTab w = Some c \<Longrightarrow> now e - startTime c < 2000 \<Longrightarrow>
     storage (recordCurrentSession_draft e w) = storage w"
  by (simp add: recordCurrentSession_draft_def Let_def)

lemma storage_onFocusChanged_none:
  "storage (onFocusChanged e WINDOW_ID_NONE w) =
     storage (recordCurrentSession e
       ((addDebugLog e focus_change ''Browser lost focus''
                    (JObj [(''previousWindowFocused'', JBool (isWindowFocused w)),
                           (''currentTab'', domain_or_none (currentTab w)),
                           (''sessionTime'',
                              JNum (case currentTab w of None \<Rightarrow> 0
                                    | Some c \<Rightarrow> now e - startTime c))]) w)\<lparr>isWindowFocused := False\<rparr>))"
  by (simp add: onFocusChanged_def Let_def)

text \<open>
  Claim C2. Closing an interval whose elapsed time is below the threshold writes nothing:
  the whole store is the same afterwards. The threshold is 1000 ms in
  \<^verbatim>\<open>recordCurrentSession\<close> and 2000 ms in the earlier draft; the same holds for the two
  places that close an interval, \<^verbatim>\<open>handleTabChange\<close> and the loss of window focus.
\<close>

theorem threshold_exclusion:
  "(currentTab w = Some c \<and> now e - startTime c < 1000 \<longrightarrow>
       storage (recordCurrentSession e w) = storage w
     \<and> storage (snd (handleTabChange e tid w)) = storage w
     \<and> storage (onFocusChanged e WINDOW_ID_NONE w) = storage w)
   \<and> (currentTab w = Some c \<and> now e - startTime c < 2000 \<longrightarrow>
       storage (recordCurrentSession_draft e w) = storage w
     \<and> storage (snd (handleTabChange_draft e tid w)) = storage w
     \<and> storage (onFocusChanged_draft e WINDOW_ID_NONE w) = storage w)"
proof (intro conjI impI)
  assume a: "currentTab w = Some c \<and> now e - startTime c < 1000"
  then show r: "storage (recordCurrentSession e w) = storage w"
    by (simp add: short_session_not_stored)
  then show "storage (snd (handleTabChange e tid w)) = storage w"
    by (simp add: storage_handleTabChange)
  from a show "storage (onFocusChanged e WINDOW_ID_NONE w) = storage w"
    by (simp add: storage_onFocusChanged_none short_session_not_stored [where c = c])
next
  assume a: "currentTab w = Some c \<and> now e - startTime c < 2000"
  then show r: "storage (recordCurrentSession_draft e w) = storage w"
    by (simp add: short_session_not_stored_draft)
  then show "storage (snd (handleTabChange_draft e tid w)) = storage w"
    by (simp add: storage_handleTabChange_draft)
  from a show "storage (onFocusChanged_draft e WINDOW_ID_NONE w) = storage w"
    by (simp add: onFocusChanged_draft_def Let_def short_session_not_stored_draft [where c = c])
qed

theorem threshold_exclusion_witness:
  "currentTab sample_world = Some \<lparr>tabId = 1, domain = ''www.example.com'', startTime = 0\<rparr>
   \<and> now (sample_env\<lparr>now := 999\<rparr>) - 0 < 1000
   \<and> storage (recordCurrentSession (sample_env\<lparr>now := 999\<rparr>) sample_world) = Map.empty
   \<and> storage (snd (handleTabChange (sample_env\<lparr>now := 999\<rparr>) 4 sample_world)) = Map.empty
   \<and> storage (recordCurrentSession_draft (sample_env\<lparr>now := 999\<rparr>) sample_world) = Map.empty"
  using threshold_exclusion [of sample_world "\<lparr>tabId = 1, domain = ''www.example.com'', startTime = 0\<rparr>"
      "sample_env\<lparr>now := 999\<rparr>" 4]
  by (simp add: sample_world_def new_world_def)

subsection \<open>Closing and opening intervals\<close>

lemma handleTabChange_without_url:
  "isWindowFocused w \<Longrightarrow> tabs_get e tid = Inr tab \<Longrightarrow> \<not> truthy (url tab) \<Longrightarrow>
     currentTab (snd (handleTabChange e tid w)) = currentTab w"
  by (simp add: handleTabChange_def handleTabChange_try_def Let_def)

lemma sample_key: "getTodayKey (sample_env\<lparr>now := t\<rparr>) = ''2024-03-07''"
  by (simp add: getTodayKey_def sample_env_def String_num_def padStart_def digit_char_def
        string_of_nat.simps)

lemma storage_addTimeToStorage:
  "storage (snd (addTimeToStorage e d t w)) =
     (if storage_get_error e = None \<and> storage_set_error e = None
      then (storage w)(getTodayKey e \<mapsto>
             obj_set d (or_zero_plus (obj_get (or_empty (storage w (getTodayKey e))) d) t)
               (or_empty (storage w (getTodayKey e))))
      else storage w)"
  by (auto simp: addTimeToStorage_def addTimeToStorage_try_def addTimeToStorage_resume_def
        storage_get_def storage_set_def Let_def split: option.splits sum.splits)

lemma ordinary_key:
  "array_index ''www.example.com'' = None"
  "map_of Object_prototype ''www.example.com'' = None"
  by (simp_all add: array_index_def is_digit_def Object_prototype_def)

lemma commit_example_com:
  "obj_set ''www.example.com'' (or_zero_plus (obj_get [] ''www.example.com'') t) []
     = [(''www.example.com'', t)]"
  "obj_set ''www.example.com''
       (or_zero_plus (obj_get [(''www.example.com'', n)] ''www.example.com'') t)
       [(''www.example.com'', n)]
     = [(''www.example.com'', n + t)]"
  by (simp_all add: obj_get_def or_zero_plus_def obj_set_def own_set_def ordinary_key)

lemma storage_recordCurrentSession:
  "storage (recordCurrentSession e w) =
     (case currentTab w of
        None \<Rightarrow> storage w
      | Some c \<Rightarrow>
          if now e - startTime c \<ge> 1000
          then storage (snd (addTimeToStorage e (domain c) (now e - startTime c) w))
          else storage w)"
  by (simp add: recordCurrentSession_def Let_def storage_addTimeToStorage split: option.splits)


text \<open>
  Claim C1 says that \<^verbatim>\<open>currentTab\<close> is empty once the interval has been closed, also when
  the fetched tab has no URL. The code at that input: the tracker is timing tab 1 since
  time 0, the window is focused, and at time 5000 \<^verbatim>\<open>handleTabChange(2)\<close> runs, where tab 2
  reports no URL. \<^verbatim>\<open>recordCurrentSession\<close> stores 5000 ms and leaves \<^verbatim>\<open>currentTab\<close> as it
  is, and so does the rest of \<^verbatim>\<open>handleTabChange\<close>: the interval of tab 1 is still open
  with its start time 0. The next change of tab, at time 10000, stores 10000 ms more for
  the same domain: 15000 ms are stored for 10000 ms of browsing.
\<close>

theorem handleTabChange_no_url_keeps_interval:
  "isWindowFocused sample_world
   \<and> tabs_get sample_env 2 = Inr \<lparr>tab_id = 2, url = None, active = True\<rparr>
   \<and> currentTab (recordCurrentSession sample_env sample_world)
       = Some \<lparr>tabId = 1, domain = ''www.example.com'', startTime = 0\<rparr>
   \<and> currentTab (snd (handleTabChange sample_env 2 sample_world))
       = Some \<lparr>tabId = 1, domain = ''www.example.com'', startTime = 0\<rparr>
   \<and> storage (snd (handleTabChange sample_env 2 sample_world)) ''2024-03-07''
       = Some [(''www.example.com'', 5000)]
   \<and> storage (snd (handleTabChange (sample_env\<lparr>now := 10000\<rparr>) 4
                (snd (handleTabChange sample_env 2 sample_world)))) ''2024-03-07''
       = Some [(''www.example.com'', 15000)]"
proof -
  have f: "isWindowFocused sample_world"
    by (simp add: sample_world_def new_world_def)
  have g: "tabs_get sample_env 2 = Inr \<lparr>tab_id = 2, url = None, active = True\<rparr>"
    by (simp add: sample_env_def sample_tabs_get_def)
  have c0: "currentTab sample_world = Some \<lparr>tabId = 1, domain = ''www.example.com'', startTime = 0\<rparr>"
    by (simp add: sample_world_def)
  have s0: "storage sample_world = Map.empty"
    by (simp add: sample_world_def new_world_def)
  have c1: "currentTab (snd (handleTabChange sample_env 2 sample_world))
       = Some \<lparr>tabId = 1, domain = ''www.example.com'', startTime = 0\<rparr>"
    using handleTabChange_without_url [OF f g] c0 by (simp add: truthy_def)
  have k: "getTodayKey sample_env = ''2024-03-07''"
    using sample_key [of 5000] by (simp add: sample_env_def)
  have e: "now sample_env = 5000" "storage_get_error sample_env = None"
    "storage_set_error sample_env = None"
    by (simp_all add: sample_env_def)
  have s1: "storage (snd (handleTabChange sample_env 2 sample_world))
       = [''2024-03-07'' \<mapsto> [(''www.example.com'', 5000)]]"
    using f c0 s0 k e
    by (simp add: storage_handleTabChange storage_recordCurrentSession storage_addTimeToStorage
          or_empty_def commit_example_com)
  have f1: "isWindowFocused (snd (handleTabChange sample_env 2 sample_world))"
    using f by (simp add: handleTabChange_def handleTabChange_try_def g truthy_def Let_def)
  have s2: "storage (snd (handleTabChange (sample_env\<lparr>now := 10000\<rparr>) 4
                (snd (handleTabChange sample_env 2 sample_world))))
       = [''2024-03-07'' \<mapsto> [(''www.example.com'', 15000)]]"
    using f1 c1 s1 sample_key [of 10000] e
    by (simp add: storage_handleTabChange storage_recordCurrentSession storage_addTimeToStorage
          or_empty_def commit_example_com sample_env_def)
  show ?thesis
    using f g c0 c1 s1 s2 by simp
qed

text \<open>
  Claim C4. While the window is not focused, a tab-updated event changes nothing at all,
  and a tab-activated event (which only writes to the debug log) leaves \<^verbatim>\<open>currentTab\<close>,
  the store and the focus flag as they are; so does \<^verbatim>\<open>handleTabChange\<close> itself, in both
  drafts.
\<close>

theorem focus_gating:
  "\<not> isWindowFocused w \<longrightarrow>
     onUpdated e tid changeInfo tab w = w
   \<and> currentTab (onActivated e activeInfo w) = currentTab w
   \<and> storage (onActivated e activeInfo w) = storage w
   \<and> isWindowFocused (onActivated e activeInfo w) = isWindowFocused w
   \<and> currentTab (snd (handleTabChange e tid w)) = currentTab w
   \<and> storage (snd (handleTabChange e tid w)) = storage w
   \<and> snd (handleTabChange_draft e tid w) = w"
  by (simp add: onUpdated_def onActivated_def handleTabChange_def handleTabChange_draft_def)

theorem focus_gating_witness:
  "\<not> isWindowFocused (sample_world\<lparr>isWindowFocused := False\<rparr>)
   \<and> onUpdated sample_env 4 \<lparr>status = Some ''complete''\<rparr>
        \<lparr>tab_id = 4, url = Some ''https://other.com/'', active = True\<rparr>
        (sample_world\<lparr>isWindowFocused := False\<rparr>) = sample_world\<lparr>isWindowFocused := False\<rparr>
   \<and> currentTab (onActivated sample_env \<lparr>ai_tabId = 4, ai_windowId = 1\<rparr>
        (sample_world\<lparr>isWindowFocused := False\<rparr>))
       = Some \<lparr>tabId = 1, domain = ''www.example.com'', startTime = 0\<rparr>
   \<and> storage (onActivated sample_env \<lparr>ai_tabId = 4, ai_windowId = 1\<rparr>
        (sample_world\<lparr>isWindowFocused := False\<rparr>)) = Map.empty"
  using focus_gating [of "sample_world\<lparr>isWindowFocused := False\<rparr>" sample_env 4
      "\<lparr>status = Some ''complete''\<rparr>"
      "\<lparr>tab_id = 4, url = Some ''https://other.com/'', active = True\<rparr>"
      "\<lparr>ai_tabId = 4, ai_windowId = 1\<rparr>"]
  by (simp add: sample_world_def new_world_def)



text \<open>
  Claim C9. When the window is focused and \<^verbatim>\<open>chrome.tabs.get\<close> fails, the promise of
  \<^verbatim>\<open>handleTabChange\<close> is still fulfilled, \<^verbatim>\<open>currentTab\<close> is empty afterwards, the newest
  entry of the debug log is the error entry for this tab id, and the newest console line
  is the error line. The earlier draft does the same with the console alone.
\<close>

theorem tab_lookup_failure:
  "isWindowFocused w \<and> tabs_get e tid = Inl err \<longrightarrow>
     fst (handleTabChange e tid w) = Inr ()
   \<and> currentTab (snd (handleTabChange e tid w)) = None
   \<and> (\<exists>rest. logs_of (snd (handleTabChange e tid w)) =
         \<lparr>timestamp = now e, message = ''Error getting tab info during tab change'',
          logType = error,
          data = JObj [(''tabId'', JNum tid), (''error'', error_message err)]\<rparr> # rest)
   \<and> (\<exists>rest. console (snd (handleTabChange e tid w)) = ConsoleError ''Error getting tab info:'' # rest)
   \<and> fst (handleTabChange_draft e tid w) = Inr ()
   \<and> currentTab (snd (handleTabChange_draft e tid w)) = None
   \<and> (\<exists>rest. console (snd (handleTabChange_draft e tid w))
         = ConsoleError ''Error getting tab info:'' # rest)"
proof (intro impI)
  assume a: "isWindowFocused w \<and> tabs_get e tid = Inl err"
  let ?w1 = "recordCurrentSession e w"
  let ?w2 = "addDebugLog e error ''Error getting tab info during tab change''
               (JObj [(''tabId'', JNum tid), (''error'', error_message err)]) ?w1"
  have h: "handleTabChange e tid w =
      (Inr (), (console_error ''Error getting tab info:'' ?w2)\<lparr>currentTab := None\<rparr>)"
    using a by (simp add: handleTabChange_def handleTabChange_try_def Let_def)
  have l: "logs_of ((console_error ''Error getting tab info:'' ?w2)\<lparr>currentTab := None\<rparr>)
      = logs_of ?w2"
    by (simp add: logs_of_def)
  have d: "handleTabChange_draft e tid w =
      (Inr (), (console_error ''Error getting tab info:'' (recordCurrentSession_draft e w))
                 \<lparr>currentTab := None\<rparr>)"
    using a by (simp add: handleTabChange_draft_def handleTabChange_draft_try_def Let_def)
  show "fst (handleTabChange e tid w) = Inr ()
   \<and> currentTab (snd (handleTabChange e tid w)) = None
   \<and> (\<exists>rest. logs_of (snd (handleTabChange e tid w)) =
         \<lparr>timestamp = now e, message = ''Error getting tab info during tab change'',
          logType = error,
          data = JObj [(''tabId'', JNum tid), (''error'', error_message err)]\<rparr> # rest)
   \<and> (\<exists>rest. console (snd (handleTabChange e tid w)) = ConsoleError ''Error getting tab info:'' # rest)
   \<and> fst (handleTabChange_draft e tid w) = Inr ()
   \<and> currentTab (snd (handleTabChange_draft e tid w)) = None
   \<and> (\<exists>rest. console (snd (handleTabChange_draft e tid w))
         = ConsoleError ''Error getting tab info:'' # rest)"
    unfolding h d
    by (simp add: l logs_of_addDebugLog MAX_DEBUG_LOGS_def) (simp add: console_error_def)
qed

theorem tab_lookup_failure_witness:
  "isWindowFocused sample_world
   \<and> tabs_get sample_env 9 = Inl (Error ''No tab with id'')
   \<and> fst (handleTabChange sample_env 9 sample_world) = Inr ()
   \<and> currentTab (snd (handleTabChange sample_env 9 sample_world)) = None"
  using tab_lookup_failure [of sample_world sample_env 9 "Error ''No tab with id''"]
  by (simp add: sample_world_def new_world_def sample_env_def sample_tabs_get_def)

subsection \<open>The stored totals\<close>

lemma or_empty_simps [simp]: "or_empty None = []" "or_empty (Some dd) = dd"
  by (simp_all add: or_empty_def)

lemma sample_key0: "getTodayKey sample_env = ''2024-03-07''"
  using sample_key [of 5000] by (simp add: sample_env_def)

lemma map_of_insert_index:
  "map_of ps k = None \<Longrightarrow> map_of (insert_index i k v ps) = (map_of ps)(k \<mapsto> v)"
proof (induction ps)
  case Nil
  then show ?case by simp
next
  case (Cons p ps)
  then have "fst p \<noteq> k" and "map_of ps k = None"
    by (auto split: if_splits)
  with Cons.IH show ?case
    by (cases p) (auto simp: fun_upd_twist split: option.splits)
qed

lemma map_of_replace:
  "map_of (map (\<lambda>p. if fst p = k then (k, v) else p) ps) =
     (if map_of ps k = None then map_of ps else (map_of ps)(k \<mapsto> v))"
  by (induction ps) (auto simp: fun_eq_iff)

lemma map_of_append_new:
  "map_of ps k = None \<Longrightarrow> map_of (ps @ [(k, v)]) = (map_of ps)(k \<mapsto> v)"
  by (auto simp: fun_eq_iff map_add_def split: option.splits)

lemma map_of_own_set: "map_of (own_set k v ps) = (map_of ps)(k \<mapsto> v)"
proof (cases "map_of ps k")
  case None
  then show ?thesis
    by (cases "array_index k")
      (simp_all add: own_set_def map_of_insert_index map_of_append_new del: map_of_append)
next
  case (Some n)
  then show ?thesis
    by (simp add: own_set_def map_of_replace)
qed

text \<open>
  For a domain that is no property name of \<^verbatim>\<open>Object.prototype\<close>, a commit that is not
  overlapped by another adds up: the new value is the old one (0 if absent) plus the time.
\<close>

lemma commit_ordinary_domain:
  assumes "storage_get_error e = None" and "storage_set_error e = None"
    and "d \<noteq> ''__proto__''" and "map_of Object_prototype d = None"
  shows "map_of (or_empty (storage (snd (addTimeToStorage e d t w)) (getTodayKey e))) d
       = Some ((case map_of (or_empty (storage w (getTodayKey e))) d of None \<Rightarrow> 0 | Some n \<Rightarrow> n) + t)"
  using assms
  by (simp add: storage_addTimeToStorage obj_get_def or_zero_plus_def obj_set_def map_of_own_set
        split: option.splits)

text \<open>
  Claim C8 says that every commit of \<open>t\<close> milliseconds to a domain \<open>d\<close> leaves the stored
  value of \<open>d\<close> at its previous value (0 if absent) plus \<open>t\<close>, leaves everything else in
  the store alone, and that totals therefore never decrease. The code at three inputs, on
  7 March 2024:
  \<^item> \<open>d\<close> is \<^verbatim>\<open>constructor\<close>, 1500 ms, empty store: the read \<^verbatim>\<open>dailyData[domain]\<close> finds the
    function \<^verbatim>\<open>Object\<close> on the prototype, \<^verbatim>\<open>||\<close> keeps it, \<^verbatim>\<open>+\<close> concatenates, and the
    value written is the string \<^verbatim>\<open>function Object() { [native code] }1500\<close>: the day's
    object holds no number for the domain.
  \<^item> \<open>d\<close> is \<^verbatim>\<open>__proto__\<close>: the value is the string \<^verbatim>\<open>[object Object]1500\<close>, and the
    assignment stores nothing.
  \<^item> two commits overlap: the store holds 2000 ms for \<^verbatim>\<open>a.com\<close>; a commit of 1500 ms to
    \<^verbatim>\<open>a.com\<close> and a commit of 3000 ms to \<^verbatim>\<open>b.com\<close> both read the store before either
    writes. The first write stores 3500 for \<^verbatim>\<open>a.com\<close>; the second writes back the 2000 it
    had read, so the total of \<^verbatim>\<open>a.com\<close> goes down from 3500 to 2000.
\<close>

theorem addTimeToStorage_not_additive:
  "obj_get [] ''constructor'' = JFunction ''Object''
   \<and> or_zero_plus (obj_get [] ''constructor'') 1500
       = JStr ''function Object() { [native code] }1500''
   \<and> storage (snd (addTimeToStorage sample_env ''constructor'' 1500 sample_world)) ''2024-03-07''
       = Some []
   \<and> or_zero_plus (obj_get [] ''__proto__'') 1500 = JStr ''[object Object]1500''
   \<and> storage (snd (addTimeToStorage sample_env ''__proto__'' 1500 sample_world)) ''2024-03-07''
       = Some []
   \<and> storage_get sample_env
        (sample_world\<lparr>storage := [''2024-03-07'' \<mapsto> [(''a.com'', 2000)]]\<rparr>) ''2024-03-07''
       = Inr (Some [(''a.com'', 2000)])
   \<and> addTimeToStorage_resume sample_env ''2024-03-07'' ''a.com'' 1500 (Some [(''a.com'', 2000)])
        (sample_world\<lparr>storage := [''2024-03-07'' \<mapsto> [(''a.com'', 2000)]]\<rparr>)
       = Inr (sample_world\<lparr>storage := [''2024-03-07'' \<mapsto> [(''a.com'', 3500)]]\<rparr>)
   \<and> addTimeToStorage_resume sample_env ''2024-03-07'' ''b.com'' 3000 (Some [(''a.com'', 2000)])
        (sample_world\<lparr>storage := [''2024-03-07'' \<mapsto> [(''a.com'', 3500)]]\<rparr>)
       = Inr (sample_world\<lparr>storage := [''2024-03-07'' \<mapsto> [(''a.com'', 2000), (''b.com'', 3000)]]\<rparr>)"
proof -
  have e: "storage_get_error sample_env = None" "storage_set_error sample_env = None"
    by (simp_all add: sample_env_def)
  have s0: "storage sample_world = Map.empty"
    by (simp add: sample_world_def new_world_def)
  have g1: "obj_get [] ''constructor'' = JFunction ''Object''"
    by (simp add: obj_get_def Object_prototype_def)
  have g2: "obj_get [] ''__proto__'' = JObj []"
    by (simp add: obj_get_def)
  have v1: "or_zero_plus (JFunction ''Object'') 1500 = JStr ''function Object() { [native code] }1500''"
    by (simp add: or_zero_plus_def String_num_def string_of_nat.simps digit_char_def)
  have v2: "or_zero_plus (JObj []) 1500 = JStr ''[object Object]1500''"
    by (simp add: or_zero_plus_def String_num_def string_of_nat.simps digit_char_def)
  have c1: "storage (snd (addTimeToStorage sample_env ''constructor'' 1500 sample_world)) ''2024-03-07''
       = Some []"
    using e s0 sample_key0 by (simp add: storage_addTimeToStorage g1 v1 obj_set_def)
  have c2: "storage (snd (addTimeToStorage sample_env ''__proto__'' 1500 sample_world)) ''2024-03-07''
       = Some []"
    using e s0 sample_key0 by (simp add: storage_addTimeToStorage g2 v2 obj_set_def)
  have k: "array_index ''a.com'' = None" "array_index ''b.com'' = None"
    "map_of Object_prototype ''a.com'' = None" "map_of Object_prototype ''b.com'' = None"
    by (simp_all add: array_index_def is_digit_def Object_prototype_def)
  have r: "storage_get sample_env
        (sample_world\<lparr>storage := [''2024-03-07'' \<mapsto> [(''a.com'', 2000)]]\<rparr>) ''2024-03-07''
       = Inr (Some [(''a.com'', 2000)])"
    using e by (simp add: storage_get_def)
  have a: "addTimeToStorage_resume sample_env ''2024-03-07'' ''a.com'' 1500 (Some [(''a.com'', 2000)])
        (sample_world\<lparr>storage := [''2024-03-07'' \<mapsto> [(''a.com'', 2000)]]\<rparr>)
       = Inr (sample_world\<lparr>storage := [''2024-03-07'' \<mapsto> [(''a.com'', 3500)]]\<rparr>)"
    using e
    by (simp add: addTimeToStorage_resume_def storage_set_def obj_get_def or_zero_plus_def
          obj_set_def own_set_def k)
  have b: "addTimeToStorage_resume sample_env ''2024-03-07'' ''b.com'' 3000 (Some [(''a.com'', 2000)])
        (sample_world\<lparr>storage := [''2024-03-07'' \<mapsto> [(''a.com'', 3500)]]\<rparr>)
       = Inr (sample_world\<lparr>storage := [''2024-03-07'' \<mapsto> [(''a.com'', 2000), (''b.com'', 3000)]]\<rparr>)"
    using e
    by (simp add: addTimeToStorage_resume_def storage_set_def obj_get_def or_zero_plus_def
          obj_set_def own_set_def k)
  show ?thesis
    using g1 v1 c1 v2 c2 r a b by (simp add: g1 g2)
qed

subsection \<open>Today's totals\<close>

text \<open>
  Claim C7. \<^verbatim>\<open>getTodayData\<close> never rejects: whatever the store does, its promise is
  fulfilled with a list, and the list is empty when the read of the store fails. It changes
  nothing of the tracker or the store.
\<close>

theorem getTodayData_never_throws:
  "(\<exists>r. fst (getTodayData e w) = Inr r)
   \<and> (storage_get_error e \<noteq> None \<longrightarrow> fst (getTodayData e w) = Inr [])
   \<and> currentTab (snd (getTodayData e w)) = currentTab w
   \<and> isWindowFocused (snd (getTodayData e w)) = isWindowFocused w
   \<and> storage (snd (getTodayData e w)) = storage w"
  by (auto simp: getTodayData_def getTodayData_try_def storage_get_def Let_def
        split: option.splits sum.splits)

theorem getTodayData_never_throws_witness:
  "storage_get_error (sample_env\<lparr>storage_get_error := Some (Error ''quota'')\<rparr>) \<noteq> None
   \<and> fst (getTodayData (sample_env\<lparr>storage_get_error := Some (Error ''quota'')\<rparr>)
        (sample_world\<lparr>storage := [''2024-03-07'' \<mapsto> [(''a.com'', 2000)]]\<rparr>)) = Inr []"
  using getTodayData_never_throws [of "sample_env\<lparr>storage_get_error := Some (Error ''quota'')\<rparr>"
      "sample_world\<lparr>storage := [''2024-03-07'' \<mapsto> [(''a.com'', 2000)]]\<rparr>"]
  by simp

















subsection \<open>The debug log\<close>

lemma take_append_take: "take n (xs @ take n ys) = take n (xs @ ys)"
  by (simp add: min_def)

lemma addDebugLog_alloc:
  "debugLogs w < nextAddr w \<Longrightarrow>
     debugLogs (addDebugLog e t m d w) < nextAddr (addDebugLog e t m d w)"
  by (simp add: addDebugLog_def Let_def)

lemma length_logs_of_addDebugLog:
  "length (logs_of (addDebugLog e t m d w)) \<le> MAX_DEBUG_LOGS"
  by (simp add: logs_of_addDebugLog)

lemma addDebugLog_calls_alloc:
  "debugLogs w < nextAddr w \<Longrightarrow>
     debugLogs (addDebugLog_calls cs w) < nextAddr (addDebugLog_calls cs w)"
  by (induction cs w rule: addDebugLog_calls.induct) (simp_all add: addDebugLog_alloc)

lemma logs_of_addDebugLog_calls:
  "length (logs_of w) \<le> MAX_DEBUG_LOGS \<Longrightarrow>
     logs_of (addDebugLog_calls cs w) = take MAX_DEBUG_LOGS (rev (map entry_of cs) @ logs_of w)"
proof (induction cs w rule: addDebugLog_calls.induct)
  case (1 w)
  then show ?case by simp
next
  case (2 e t msg d cs w)
  have "logs_of (addDebugLog_calls cs (addDebugLog e t msg d w))
      = take MAX_DEBUG_LOGS (rev (map entry_of cs) @ logs_of (addDebugLog e t msg d w))"
    by (rule "2.IH") (rule length_logs_of_addDebugLog)
  also have "\<dots> = take MAX_DEBUG_LOGS (rev (map entry_of cs) @ entry_of (e, t, msg, d) # logs_of w)"
    by (simp only: logs_of_addDebugLog take_append_take entry_of.simps)
  finally show ?case by simp
qed

lemma getDebugLogs_copy:
  assumes "debugLogs w < nextAddr w"
  shows "heap (snd (getDebugLogs w)) (fst (getDebugLogs w)) = logs_of w"
    and "fst (getDebugLogs w) \<noteq> debugLogs (snd (getDebugLogs w))"
    and "logs_of (snd (getDebugLogs w)) = logs_of w"
    and "logs_of ((snd (getDebugLogs w))
           \<lparr>heap := (heap (snd (getDebugLogs w)))(fst (getDebugLogs w) := xs)\<rparr>) = logs_of w"
  using assms by (simp_all add: getDebugLogs_def logs_of_def)

text \<open>
  Claim C10. Start in a state whose log array is allocated and holds at most
  \<^verbatim>\<open>MAX_DEBUG_LOGS\<close> entries (as after the constructor), and make any sequence of
  \<^verbatim>\<open>addDebugLog\<close> calls. Then the array that \<^verbatim>\<open>getDebugLogs\<close> returns holds the first 100
  of: the entries of the calls, latest first, followed by the earlier log. It is a different
  array from the tracker's own, so whatever is written into it afterwards, the tracker's
  log is the same. (The entries themselves are values here; the code never changes one.)
\<close>

theorem debug_log_bounded_and_copied:
  "debugLogs w < nextAddr w \<and> length (logs_of w) \<le> MAX_DEBUG_LOGS \<longrightarrow>
     heap (snd (getDebugLogs (addDebugLog_calls cs w))) (fst (getDebugLogs (addDebugLog_calls cs w)))
       = take MAX_DEBUG_LOGS (rev (map entry_of cs) @ logs_of w)
   \<and> length (heap (snd (getDebugLogs (addDebugLog_calls cs w)))
               (fst (getDebugLogs (addDebugLog_calls cs w)))) \<le> MAX_DEBUG_LOGS
   \<and> fst (getDebugLogs (addDebugLog_calls cs w))
       \<noteq> debugLogs (snd (getDebugLogs (addDebugLog_calls cs w)))
   \<and> logs_of (snd (getDebugLogs (addDebugLog_calls cs w))) = logs_of (addDebugLog_calls cs w)
   \<and> (\<forall>xs. logs_of ((snd (getDebugLogs (addDebugLog_calls cs w)))
               \<lparr>heap := (heap (snd (getDebugLogs (addDebugLog_calls cs w))))
                          (fst (getDebugLogs (addDebugLog_calls cs w)) := xs)\<rparr>)
             = logs_of (addDebugLog_calls cs w))"
proof (intro impI)
  assume a: "debugLogs w < nextAddr w \<and> length (logs_of w) \<le> MAX_DEBUG_LOGS"
  let ?w = "addDebugLog_calls cs w"
  have wf: "debugLogs ?w < nextAddr ?w"
    using a by (simp add: addDebugLog_calls_alloc)
  have l: "logs_of ?w = take MAX_DEBUG_LOGS (rev (map entry_of cs) @ logs_of w)"
    using a by (simp add: logs_of_addDebugLog_calls)
  have c: "heap (snd (getDebugLogs ?w)) (fst (getDebugLogs ?w)) = logs_of ?w"
    using wf by (rule getDebugLogs_copy)
  show "heap (snd (getDebugLogs ?w)) (fst (getDebugLogs ?w))
       = take MAX_DEBUG_LOGS (rev (map entry_of cs) @ logs_of w)
   \<and> length (heap (snd (getDebugLogs ?w)) (fst (getDebugLogs ?w))) \<le> MAX_DEBUG_LOGS
   \<and> fst (getDebugLogs ?w) \<noteq> debugLogs (snd (getDebugLogs ?w))
   \<and> logs_of (snd (getDebugLogs ?w)) = logs_of ?w
   \<and> (\<forall>xs. logs_of ((snd (getDebugLogs ?w))
               \<lparr>heap := (heap (snd (getDebugLogs ?w)))(fst (getDebugLogs ?w) := xs)\<rparr>)
             = logs_of ?w)"
    using getDebugLogs_copy [OF wf] by (simp add: c l)
qed

theorem debug_log_bounded_and_copied_witness:
  "debugLogs (new_world Map.empty) < nextAddr (new_world Map.empty)
   \<and> length (logs_of (new_world Map.empty)) \<le> MAX_DEBUG_LOGS
   \<and> heap (snd (getDebugLogs (addDebugLog_calls
        [(sample_env, info, ''first'', JUndefined), (sample_env, error, ''second'', JUndefined)]
        (new_world Map.empty))))
       (fst (getDebugLogs (addDebugLog_calls
        [(sample_env, info, ''first'', JUndefined), (sample_env, error, ''second'', JUndefined)]
        (new_world Map.empty))))
     = [\<lparr>timestamp = 5000, message = ''second'', logType = error, data = JUndefined\<rparr>,
        \<lparr>timestamp = 5000, message = ''first'', logType = info, data = JUndefined\<rparr>]"
  using debug_log_bounded_and_copied [of "new_world Map.empty"
      "[(sample_env, info, ''first'', JUndefined), (sample_env, error, ''second'', JUndefined)]"]
  by (simp add: new_world_def logs_of_def MAX_DEBUG_LOGS_def sample_env_def)

end
